theory Spec2Isabelle
  imports Complex_Main "HOL-Library.Multiset"
begin

section \<open>The service of \<^verbatim>\<open>main.py\<close>: item CRUD and the vector endpoints\<close>

text \<open>
  \<^verbatim>\<open>main.py\<close> and \<^verbatim>\<open>main_previous.py\<close> differ only in how the database URL is
  built; the tables, the schemas and the endpoints are the same text, so one embedding
  covers both files.

  The endpoints talk to three collaborators whose code is not part of the repository:
  the Ollama embedding model, the \<^verbatim>\<open><=>\<close> operator of pgvector and the
  \<^verbatim>\<open>ORDER BY\<close> of PostgreSQL. They are parameters of the model (the record
  \<open>backend\<close>), and every theorem says which of their properties it relies on.
  The database is taken to be reachable; a lost connection is not modelled.
\<close>

subsection \<open>Tables and schemas\<close>

type_synonym vector = "real list"

text \<open>\<^verbatim>\<open>Vector(768)\<close>, the type of the column \<^verbatim>\<open>documents.embedding\<close>.\<close>

definition dimension :: nat where
  "dimension = 768"

text \<open>
  The columns other than the primary keys are declared without \<^verbatim>\<open>nullable=False\<close>,
  so a row may hold NULL there: \<open>None\<close>.
\<close>

record Item =
  item_id :: int
  name :: "string option"
  description :: "string option"

record Document =
  doc_id :: int
  content :: "string option"
  embedding :: "vector option"

record DocCreate =
  dc_content :: string

record SearchQuery =
  query :: string

text \<open>
  What an endpoint can raise. The source raises Python exceptions of the libraries; the
  constructors name them by cause: the embedding call failed, a vector bound to a
  \<^verbatim>\<open>Vector(768)\<close> has another length (\<^verbatim>\<open>ValueError\<close> of pgvector's bind
  processor), \<^verbatim>\<open>float(None)\<close>, and a request body that does not fit the schema.
\<close>

datatype error = EmbeddingUnavailable | DimensionMismatch | TypeError | ValidationError

text \<open>
  The database: the two tables, each a list of rows in the order a sequential scan
  yields them, and the last value handed out by the sequence behind
  \<^verbatim>\<open>documents.id\<close>.
\<close>

record store =
  items :: "Item list"
  documents :: "Document list"
  documents_id_seq :: int

text \<open>
  The world an endpoint runs in: the database and the texts sent to the embedding
  model so far, oldest first.
\<close>

record world =
  db :: store
  embed_calls :: "string list"

type_synonym row = "Document \<times> real option"

text \<open>
  The collaborators. \<open>embed_query\<close> is \<^verbatim>\<open>embeddings.embed_query\<close> (\<open>None\<close>: the
  call raises); \<open>cosine_distance\<close> is pgvector's \<^verbatim>\<open><=>\<close> on two vectors;
  \<open>order_by\<close> is what the database makes of \<^verbatim>\<open>ORDER BY distance\<close> on the rows of
  a scan, each row paired with its distance, NULL when the embedding is.
\<close>

record backend =
  embed_query :: "string \<Rightarrow> vector option"
  cosine_distance :: "vector \<Rightarrow> vector \<Rightarrow> real"
  order_by :: "row list \<Rightarrow> row list"

text \<open>
  PostgreSQL sorts ascending with NULLs last. \<open>sorts_by_distance\<close> is all that
  \<^verbatim>\<open>ORDER BY distance\<close> promises: the same rows, no distance before a smaller one.
  The order of rows at equal distance is the database's choice.
\<close>

fun distance_le :: "real option \<Rightarrow> real option \<Rightarrow> bool" where
  "distance_le (Some a) (Some b) = (a \<le> b)"
| "distance_le None (Some b) = False"
| "distance_le _ None = True"

definition by_distance :: "row \<Rightarrow> row \<Rightarrow> bool" where
  "by_distance r s = distance_le (snd r) (snd s)"

definition sorts_by_distance :: "(row list \<Rightarrow> row list) \<Rightarrow> bool" where
  "sorts_by_distance ob \<longleftrightarrow>
     (\<forall>rows. mset (ob rows) = mset rows \<and> sorted_wrt by_distance (ob rows))"

subsection \<open>\<^verbatim>\<open>delete_item\<close>\<close>

text \<open>The check mark of the reply, U+2705, in UTF-8.\<close>

definition check_mark :: string where
  "check_mark = [CHR 0xE2, CHR 0x9C, CHR 0x85]"

text \<open>
  \<^verbatim>\<open>.filter(Item.id == item_id).first()\<close> is the first matching row or
  \<^verbatim>\<open>None\<close>; \<^verbatim>\<open>db.delete(item); db.commit()\<close> deletes the row of that primary
  key. Both replies are returned dictionaries (\<open>Inr\<close>), not exceptions.
\<close>

definition delete_item :: "world \<Rightarrow> int \<Rightarrow> world \<times> (error + (string \<times> string) list)" where
  "delete_item w iid =
     (case find (\<lambda>i. item_id i = iid) (items (db w)) of
        None \<Rightarrow> (w, Inr [(''error'', ''Item not found'')])
      | Some item \<Rightarrow>
          (w\<lparr>db := (db w)\<lparr>items := filter (\<lambda>i. item_id i \<noteq> item_id item) (items (db w))\<rparr>\<rparr>,
           Inr [(''message'', ''Item deleted '' @ check_mark)]))"

subsection \<open>\<^verbatim>\<open>add_document\<close>\<close>

text \<open>The fire of the reply, U+1F525, in UTF-8.\<close>

definition fire :: string where
  "fire = [CHR 0xF0, CHR 0x9F, CHR 0x94, CHR 0xA5]"

record add_reply =
  reply_id :: int
  message :: string

text \<open>
  The embedding call comes first and its exception leaves the function before
  \<^verbatim>\<open>db.add\<close>. \<^verbatim>\<open>db.commit()\<close> sends the INSERT; binding the vector to the
  \<^verbatim>\<open>Vector(768)\<close> column raises when its length is not 768, before anything is
  sent. Otherwise the row gets the next value of the sequence and both fields at once.
\<close>

definition add_document :: "backend \<Rightarrow> world \<Rightarrow> DocCreate \<Rightarrow> world \<times> (error + add_reply)" where
  "add_document be w doc =
     (let w1 = w\<lparr>embed_calls := embed_calls w @ [dc_content doc]\<rparr> in
      case embed_query be (dc_content doc) of
        None \<Rightarrow> (w1, Inl EmbeddingUnavailable)
      | Some vector \<Rightarrow>
          if length vector \<noteq> dimension then (w1, Inl DimensionMismatch)
          else
            let d = \<lparr>doc_id = documents_id_seq (db w1) + 1,
                     content = Some (dc_content doc),
                     embedding = Some vector\<rparr>
            in (w1\<lparr>db := (db w1)\<lparr>documents := documents (db w1) @ [d],
                                   documents_id_seq := doc_id d\<rparr>\<rparr>,
                Inr \<lparr>reply_id = doc_id d, message = ''Stored with embedding '' @ fire\<rparr>))"

subsection \<open>\<^verbatim>\<open>search_document\<close>\<close>

record search_hit =
  hit_id :: int
  hit_content :: "string option"
  hit_distance :: real

text \<open>
  \<^verbatim>\<open>Document.embedding.cosine_distance(q_vector).label("distance")\<close>: the stored
  embedding is the left operand, and the distance of a NULL embedding is NULL.
\<close>

definition distance_column :: "backend \<Rightarrow> vector \<Rightarrow> Document \<Rightarrow> real option" where
  "distance_column be q_vector d = map_option (\<lambda>e. cosine_distance be e q_vector) (embedding d)"

text \<open>The query: every row with its distance, \<^verbatim>\<open>.order_by("distance").limit(3).all()\<close>.\<close>

definition ranked_rows :: "backend \<Rightarrow> vector \<Rightarrow> Document list \<Rightarrow> row list" where
  "ranked_rows be q_vector docs =
     take 3 (order_by be (map (\<lambda>d. (d, distance_column be q_vector d)) docs))"

text \<open>
  The list comprehension of the reply; \<^verbatim>\<open>float(distance)\<close> raises
  \<^verbatim>\<open>TypeError\<close> on a NULL distance.
\<close>

fun build_hits :: "row list \<Rightarrow> error + search_hit list" where
  "build_hits [] = Inr []"
| "build_hits ((doc, distance) # rest) =
     (case distance of
        None \<Rightarrow> Inl TypeError
      | Some x \<Rightarrow>
          (case build_hits rest of
             Inl e \<Rightarrow> Inl e
           | Inr hits \<Rightarrow>
               Inr (\<lparr>hit_id = doc_id doc, hit_content = content doc, hit_distance = x\<rparr> # hits)))"

text \<open>
  The query vector is bound to the type of the column it is compared with, so a vector
  of another length raises before the query runs. Nothing in the function writes.
\<close>

definition search_document :: "backend \<Rightarrow> world \<Rightarrow> SearchQuery \<Rightarrow> world \<times> (error + search_hit list)" where
  "search_document be w payload =
     (let w1 = w\<lparr>embed_calls := embed_calls w @ [query payload]\<rparr> in
      case embed_query be (query payload) of
        None \<Rightarrow> (w1, Inl EmbeddingUnavailable)
      | Some q_vector \<Rightarrow>
          if length q_vector \<noteq> dimension then (w1, Inl DimensionMismatch)
          else (w1, build_hits (ranked_rows be q_vector (documents (db w1)))))"

text \<open>
  The route \<^verbatim>\<open>POST /vector/search\<close> reads its JSON body into a
  \<^verbatim>\<open>SearchQuery\<close>, whose only field is \<^verbatim>\<open>query: str\<close>; a key the schema does
  not declare, such as \<^verbatim>\<open>k\<close>, is dropped. A body is modelled as the decoded
  object, a map from keys to values.
\<close>

datatype json = JNull | JBool bool | JNum int | JStr string

definition parse_SearchQuery :: "(string \<rightharpoonup> json) \<Rightarrow> error + SearchQuery" where
  "parse_SearchQuery body =
     (case body ''query'' of
        Some (JStr s) \<Rightarrow> Inr \<lparr>query = s\<rparr>
      | _ \<Rightarrow> Inl ValidationError)"

definition search_endpoint :: "backend \<Rightarrow> world \<Rightarrow> (string \<rightharpoonup> json) \<Rightarrow> world \<times> (error + search_hit list)" where
  "search_endpoint be w body =
     (case parse_SearchQuery body of
        Inl e \<Rightarrow> (w, Inl e)
      | Inr payload \<Rightarrow> search_document be w payload)"

subsection \<open>Runs of the service\<close>

datatype request = AddDocument DocCreate | SearchDocument SearchQuery | DeleteItem int

fun handle :: "backend \<Rightarrow> world \<Rightarrow> request \<Rightarrow> world" where
  "handle be w (AddDocument doc) = fst (add_document be w doc)"
| "handle be w (SearchDocument payload) = fst (search_document be w payload)"
| "handle be w (DeleteItem iid) = fst (delete_item w iid)"

fun run :: "backend \<Rightarrow> world \<Rightarrow> request list \<Rightarrow> world" where
  "run be w [] = w"
| "run be w (r # rs) = run be (handle be w r) rs"

text \<open>The tables as \<^verbatim>\<open>create_all\<close> leaves them on a fresh database.\<close>

definition fresh :: world where
  "fresh = \<lparr>db = \<lparr>items = [], documents = [], documents_id_seq = 0\<rparr>, embed_calls = []\<rparr>"

text \<open>
  The invariant of the table \<^verbatim>\<open>documents\<close>: a row has its content and an
  embedding of 768 numbers.
\<close>

definition document_ok :: "Document \<Rightarrow> bool" where
  "document_ok d \<longleftrightarrow>
     content d \<noteq> None \<and> (case embedding d of None \<Rightarrow> False | Some v \<Rightarrow> length v = dimension)"

definition documents_ok :: "store \<Rightarrow> bool" where
  "documents_ok s \<longleftrightarrow> list_all document_ok (documents s)"

text \<open>A reply row stands for a stored row: same id, same content, the row's distance.\<close>

definition hit_matches :: "backend \<Rightarrow> vector \<Rightarrow> search_hit \<Rightarrow> Document \<Rightarrow> bool" where
  "hit_matches be q_vector h d \<longleftrightarrow>
     hit_id h = doc_id d \<and> hit_content h = content d \<and>
     distance_column be q_vector d = Some (hit_distance h)"

subsection \<open>Concrete collaborators\<close>

text \<open>
  Instances of the three parameters, for evaluating the endpoints on concrete inputs.

  \<open>scan_order_sort\<close> is an insertion sort that keeps rows at equal distance in scan
  order; \<open>reverse_scan_sort\<close> emits them in the opposite order. Both are orderings by
  distance.
\<close>

fun insert_row :: "row \<Rightarrow> row list \<Rightarrow> row list" where
  "insert_row r [] = [r]"
| "insert_row r (s # rest) =
     (if by_distance r s then r # s # rest else s # insert_row r rest)"

fun scan_order_sort :: "row list \<Rightarrow> row list" where
  "scan_order_sort [] = []"
| "scan_order_sort (r # rows) = insert_row r (scan_order_sort rows)"

definition reverse_scan_sort :: "row list \<Rightarrow> row list" where
  "reverse_scan_sort rows = scan_order_sort (rev rows)"

text \<open>
  pgvector's cosine distance read over the reals: one minus the cosine similarity,
  the similarity kept in \<open>[-1, 1]\<close> as the operator does. (On a vector of norm 0 the
  operator yields NaN; the quotient below is 0 there.)
\<close>

definition dot :: "vector \<Rightarrow> vector \<Rightarrow> real" where
  "dot a b = sum_list (map2 (*) a b)"

definition real_cosine_distance :: "vector \<Rightarrow> vector \<Rightarrow> real" where
  "real_cosine_distance a b = 1 - max (- 1) (min 1 (dot a b / sqrt (dot a a * dot b b)))"

text \<open>
  A toy embedding model with two directions, at right angles: a text that mentions
  the letter c, and any other text.
\<close>

definition cat_vector :: vector where
  "cat_vector = replicate 768 1"

definition dog_vector :: vector where
  "dog_vector = replicate 384 1 @ replicate 384 (- 1)"

definition toy_embed :: "string \<Rightarrow> vector option" where
  "toy_embed s = Some (if CHR ''c'' \<in> set s then cat_vector else dog_vector)"

definition toy_backend :: backend where
  "toy_backend =
     \<lparr>embed_query = toy_embed, cosine_distance = real_cosine_distance, order_by = scan_order_sort\<rparr>"

text \<open>The same database with the other tie order, a model that is down, and a model of 3 dimensions.\<close>

definition reversing_backend :: backend where
  "reversing_backend = toy_backend\<lparr>order_by := reverse_scan_sort\<rparr>"

definition offline_backend :: backend where
  "offline_backend = toy_backend\<lparr>embed_query := (\<lambda>s. None)\<rparr>"

definition short_backend :: backend where
  "short_backend = toy_backend\<lparr>embed_query := (\<lambda>s. Some [1, 0, 0])\<rparr>"

subsection \<open>Concrete worlds\<close>

text \<open>
  Worlds reached from the fresh database by adding documents, and a store with one item.
\<close>

definition scenario :: world where
  "scenario = run toy_backend fresh
     [AddDocument \<lparr>dc_content = ''the cat sat on the mat''\<rparr>,
      AddDocument \<lparr>dc_content = ''a dog lay on the rug''\<rparr>]"

definition one_item :: world where
  "one_item = fresh\<lparr>db := (db fresh)\<lparr>items := [\<lparr>item_id = 1, name = Some ''pen'', description = Some ''blue''\<rparr>]\<rparr>\<rparr>"

definition three_cats :: world where
  "three_cats = run toy_backend fresh
     [AddDocument \<lparr>dc_content = ''the cat sat on the mat''\<rparr>,
      AddDocument \<lparr>dc_content = ''the cat sat on the mat''\<rparr>,
      AddDocument \<lparr>dc_content = ''the cat sat on the mat''\<rparr>]"

definition four_documents :: world where
  "four_documents = run toy_backend scenario
     [AddDocument \<lparr>dc_content = ''a cat on a rug''\<rparr>,
      AddDocument \<lparr>dc_content = ''a dog on a mat''\<rparr>]"

definition twins :: world where
  "twins = run reversing_backend fresh
     [AddDocument \<lparr>dc_content = ''the cat sat on the mat''\<rparr>,
      AddDocument \<lparr>dc_content = ''the cat sat on the mat''\<rparr>]"

definition dog_only :: world where
  "dog_only = run toy_backend fresh [AddDocument \<lparr>dc_content = ''a dog lay on the rug''\<rparr>]"

section \<open>The collaborators' instances\<close>

subsection \<open>The two insertion sorts order by distance\<close>

lemma distance_le_total: "distance_le a b \<or> distance_le b a"
  by (cases a; cases b) auto

lemma distance_le_trans: "distance_le a b \<Longrightarrow> distance_le b c \<Longrightarrow> distance_le a c"
  by (cases a; cases b; cases c) auto

lemma distance_le_refl: "distance_le a a"
  by (cases a) auto

lemma by_distance_total: "\<not> by_distance r s \<Longrightarrow> by_distance s r"
  using distance_le_total by (auto simp: by_distance_def)

lemma by_distance_trans: "by_distance r s \<Longrightarrow> by_distance s t \<Longrightarrow> by_distance r t"
  unfolding by_distance_def by (rule distance_le_trans)

lemma mset_insert_row: "mset (insert_row r rows) = add_mset r (mset rows)"
  by (induction rows) auto

lemma set_insert_row: "set (insert_row r rows) = insert r (set rows)"
  by (induction rows) auto

lemma sorted_insert_row:
  "sorted_wrt by_distance rows \<Longrightarrow> sorted_wrt by_distance (insert_row r rows)"
  by (induction rows) (auto simp: set_insert_row dest: by_distance_total by_distance_trans)

lemma mset_scan_order_sort: "mset (scan_order_sort rows) = mset rows"
  by (induction rows) (auto simp: mset_insert_row)

lemma sorted_scan_order_sort: "sorted_wrt by_distance (scan_order_sort rows)"
  by (induction rows) (auto simp: sorted_insert_row)

lemma scan_order_sort_sorts: "sorts_by_distance scan_order_sort"
  by (simp add: sorts_by_distance_def mset_scan_order_sort sorted_scan_order_sort)

lemma reverse_scan_sort_sorts: "sorts_by_distance reverse_scan_sort"
  by (simp add: sorts_by_distance_def reverse_scan_sort_def mset_scan_order_sort sorted_scan_order_sort)

subsection \<open>Distances between the toy vectors\<close>

lemma dot_replicate: "dot (replicate n x) (replicate n y) = real n * (x * y)"
  by (simp add: dot_def sum_list_replicate)

lemma dot_append: "length a = length b \<Longrightarrow> dot (a @ c) (b @ d) = dot a b + dot c d"
  by (simp add: dot_def)

lemma dot_cat_cat: "dot cat_vector cat_vector = 768"
  by (simp add: cat_vector_def dot_replicate)

lemma dot_dog_dog: "dot dog_vector dog_vector = 768"
  by (simp add: dog_vector_def dot_append dot_replicate)

lemma cat_vector_split: "cat_vector = replicate 384 1 @ replicate 384 1"
  by (simp add: cat_vector_def flip: replicate_add)

lemma dot_cat_dog: "dot cat_vector dog_vector = 0"
  by (simp add: cat_vector_split dog_vector_def dot_append dot_replicate)

lemma dot_dog_cat: "dot dog_vector cat_vector = 0"
  by (simp add: cat_vector_split dog_vector_def dot_append dot_replicate)

lemma dot_self_nonneg: "0 \<le> dot v v"
  by (induction v) (simp_all add: dot_def)

text \<open>Over the reals the distance from a vector of non-zero norm to itself is 0.\<close>

lemma real_cosine_distance_self: "dot v v \<noteq> 0 \<Longrightarrow> real_cosine_distance v v = 0"
proof -
  assume "dot v v \<noteq> 0"
  with dot_self_nonneg [of v] have "0 < dot v v" by simp
  then have "dot v v / sqrt (dot v v * dot v v) = 1" by simp
  then show ?thesis by (simp add: real_cosine_distance_def)
qed

lemma real_cosine_distance_nonneg: "0 \<le> real_cosine_distance a b"
  by (simp add: real_cosine_distance_def)

lemma toy_distances:
  "real_cosine_distance cat_vector cat_vector = 0"
  "real_cosine_distance dog_vector dog_vector = 0"
  "real_cosine_distance cat_vector dog_vector = 1"
  "real_cosine_distance dog_vector cat_vector = 1"
  by (simp_all add: real_cosine_distance_def dot_cat_cat dot_dog_dog dot_cat_dog dot_dog_cat)

lemma toy_lengths: "length cat_vector = dimension" "length dog_vector = dimension"
  by (simp_all add: cat_vector_def dog_vector_def dimension_def)

section \<open>Properties of the endpoints\<close>

subsection \<open>What an ordering by distance gives\<close>

lemma sorts_mset: "sorts_by_distance ob \<Longrightarrow> mset (ob rows) = mset rows"
  by (simp add: sorts_by_distance_def)

lemma sorts_sorted: "sorts_by_distance ob \<Longrightarrow> sorted_wrt by_distance (ob rows)"
  by (simp add: sorts_by_distance_def)

lemma sorts_set: "sorts_by_distance ob \<Longrightarrow> set (ob rows) = set rows"
  by (metis sorts_mset set_mset_mset)

lemma sorts_length: "sorts_by_distance ob \<Longrightarrow> length (ob rows) = length rows"
  by (metis sorts_mset size_mset)

lemma sorts_nil: "sorts_by_distance ob \<Longrightarrow> ob [] = []"
  using sorts_length [of ob "[]"] by simp

lemma sorted_wrt_take: "sorted_wrt R xs \<Longrightarrow> sorted_wrt R (take n xs)"
  by (metis append_take_drop_id sorted_wrt_append)

subsection \<open>The reply rows\<close>

text \<open>
  \<open>build_hits\<close> succeeds exactly when every row has a distance, and then the reply
  lists the rows in their order.
\<close>

lemma search_hit_eq:
  "h = \<lparr>hit_id = i, hit_content = c, hit_distance = x\<rparr> \<longleftrightarrow>
     hit_id h = i \<and> hit_content h = c \<and> hit_distance h = x"
  by (cases h) auto

lemma build_hits_Inr_iff:
  "build_hits rows = Inr hits \<longleftrightarrow>
     list_all2 (\<lambda>h r. hit_id h = doc_id (fst r) \<and> hit_content h = content (fst r) \<and>
                       snd r = Some (hit_distance h)) hits rows"
proof (induction rows arbitrary: hits)
  case Nil
  show ?case by auto
next
  case (Cons r rows)
  obtain doc distance where r: "r = (doc, distance)" by (cases r)
  show ?case
  proof (cases hits)
    case Nil
    then show ?thesis by (simp add: r split: option.splits sum.splits)
  next
    case (Cons h hs)
    have "h = \<lparr>hit_id = doc_id doc, hit_content = content doc, hit_distance = x\<rparr> \<longleftrightarrow>
          hit_id h = doc_id doc \<and> hit_content h = content doc \<and> x = hit_distance h" for x
      by (cases h) auto
    then show ?thesis
      using Cons.IH [of hs] by (auto simp: r Cons split: option.splits sum.splits)
  qed
qed

lemma build_hits_length: "build_hits rows = Inr hits \<Longrightarrow> length hits = length rows"
  by (simp add: build_hits_Inr_iff list_all2_lengthD)

lemma build_hits_total:
  "list_all (\<lambda>r. snd r \<noteq> None) rows \<Longrightarrow> \<exists>hits. build_hits rows = Inr hits"
  by (induction rows) (auto split: option.splits sum.splits)

lemma build_hits_rows:
  "build_hits (map (\<lambda>d. (d, distance_column be q d)) ds) = Inr hits \<longleftrightarrow>
     list_all2 (hit_matches be q) hits ds"
proof -
  have "hit_matches be q = (\<lambda>h d. hit_id h = doc_id d \<and> hit_content h = content d \<and>
          distance_column be q d = Some (hit_distance h))"
    by (simp add: fun_eq_iff hit_matches_def)
  then show ?thesis by (simp add: build_hits_Inr_iff list_all2_map2)
qed

lemma build_hits_sorted:
  assumes "build_hits rows = Inr hits" and "sorted_wrt by_distance rows"
  shows "sorted (map hit_distance hits)"
proof -
  let ?R = "\<lambda>h r. hit_id h = doc_id (fst r) \<and> hit_content h = content (fst r) \<and>
                  snd r = Some (hit_distance h)"
  have rel: "list_all2 ?R hits rows" using assms(1) by (simp add: build_hits_Inr_iff)
  then have len: "length hits = length rows" by (rule list_all2_lengthD)
  have "hit_distance (hits ! i) \<le> hit_distance (hits ! j)" if "i < j" "j < length hits" for i j
  proof -
    have i: "snd (rows ! i) = Some (hit_distance (hits ! i))"
      using list_all2_nthD [OF rel, of i] that by simp
    have j: "snd (rows ! j) = Some (hit_distance (hits ! j))"
      using list_all2_nthD [OF rel, of j] that by simp
    have "by_distance (rows ! i) (rows ! j)"
      using assms(2) that len by (simp add: sorted_wrt_iff_nth_less)
    then show ?thesis by (simp add: by_distance_def i j)
  qed
  then show ?thesis by (simp add: sorted_iff_nth_mono_less)
qed

lemma build_hits_member:
  assumes "build_hits rows = Inr hits" and "(d, Some x) \<in> set rows"
  shows "\<lparr>hit_id = doc_id d, hit_content = content d, hit_distance = x\<rparr> \<in> set hits"
proof -
  let ?R = "\<lambda>h r. hit_id h = doc_id (fst r) \<and> hit_content h = content (fst r) \<and>
                  snd r = Some (hit_distance h)"
  have rel: "list_all2 ?R hits rows" using assms(1) by (simp add: build_hits_Inr_iff)
  from assms(2) obtain i where i: "i < length rows" "rows ! i = (d, Some x)"
    by (auto simp: in_set_conv_nth)
  with rel have "i < length hits" and "?R (hits ! i) (d, Some x)"
    by (auto simp: list_all2_conv_all_nth)
  then have "hits ! i = \<lparr>hit_id = doc_id d, hit_content = content d, hit_distance = x\<rparr>"
    by (simp add: search_hit_eq)
  with \<open>i < length hits\<close> show ?thesis by (metis nth_mem)
qed

lemma build_hits_first:
  assumes "build_hits rows = Inr hits" and "take 1 rows = [(d, Some x)]"
  shows "take 1 hits = [\<lparr>hit_id = doc_id d, hit_content = content d, hit_distance = x\<rparr>]"
proof -
  from assms(2) obtain rest where rows: "rows = (d, Some x) # rest" by (cases rows) auto
  with assms(1) show ?thesis by (auto split: sum.splits)
qed

lemma document_ok_distance: "document_ok d \<Longrightarrow> distance_column be q d \<noteq> None"
  by (auto simp: document_ok_def distance_column_def split: option.splits)

lemma matches_sorted:
  assumes "list_all2 (hit_matches be q) hits ds"
    and "sorted_wrt (\<lambda>a b. distance_le (distance_column be q a) (distance_column be q b)) ds"
  shows "sorted (map hit_distance hits)"
proof -
  have len: "length hits = length ds" using assms(1) by (rule list_all2_lengthD)
  have "hit_distance (hits ! i) \<le> hit_distance (hits ! j)" if "i < j" "j < length hits" for i j
  proof -
    have i: "distance_column be q (ds ! i) = Some (hit_distance (hits ! i))"
      using list_all2_nthD [OF assms(1), of i] that by (simp add: hit_matches_def)
    have j: "distance_column be q (ds ! j) = Some (hit_distance (hits ! j))"
      using list_all2_nthD [OF assms(1), of j] that by (simp add: hit_matches_def)
    have "distance_le (distance_column be q (ds ! i)) (distance_column be q (ds ! j))"
      using assms(2) that len by (simp add: sorted_wrt_iff_nth_less)
    then show ?thesis by (simp add: i j)
  qed
  then show ?thesis by (simp add: sorted_iff_nth_mono_less)
qed

lemma matches_nonneg:
  assumes "list_all2 (hit_matches be q) hits ds" and "\<forall>a b. 0 \<le> cosine_distance be a b"
  shows "list_all (\<lambda>h. 0 \<le> hit_distance h) hits"
proof -
  have "0 \<le> hit_distance h" if "h \<in> set hits" for h
  proof -
    from that assms(1) obtain d where "hit_matches be q h d"
      by (auto simp: in_set_conv_nth list_all2_conv_all_nth)
    then have "distance_column be q d = Some (hit_distance h)"
      by (simp add: hit_matches_def)
    then have "\<exists>e. cosine_distance be e q = hit_distance h"
      by (auto simp: distance_column_def)
    with assms(2) show ?thesis by metis
  qed
  then show ?thesis by (simp add: list_all_iff)
qed

subsection \<open>Sorted rows: uniqueness, the first three, the first\<close>

lemma distance_le_antisym: "distance_le a b \<Longrightarrow> distance_le b a \<Longrightarrow> a = b"
  by (cases a; cases b) auto

lemma sorted_rows_unique:
  "sorted_wrt by_distance xs \<Longrightarrow> sorted_wrt by_distance ys \<Longrightarrow> mset xs = mset ys \<Longrightarrow>
   distinct (map snd xs) \<Longrightarrow> xs = ys"
proof (induction xs arbitrary: ys)
  case Nil
  then show ?case by simp
next
  case (Cons x xs)
  then obtain y ys' where ys: "ys = y # ys'" by (cases ys) auto
  have same_set: "set (x # xs) = set (y # ys')"
    using Cons.prems(3) ys by (metis set_mset_mset)
  have "x = y"
  proof (rule ccontr)
    assume neq: "x \<noteq> y"
    with same_set have "x \<in> set ys'" and "y \<in> set xs" by auto
    then have "by_distance y x" and "by_distance x y"
      using Cons.prems(1,2) ys by auto
    then have "snd x = snd y"
      by (simp add: by_distance_def distance_le_antisym)
    with \<open>y \<in> set xs\<close> Cons.prems(4) show False by (force simp: image_iff)
  qed
  with Cons ys show ?case by auto
qed

lemma first_three_member:
  assumes sorted: "sorted_wrt by_distance S"
    and perm: "mset S = mset (others @ [x])"
    and few: "length (filter (\<lambda>r. by_distance r x) others) < 3"
  shows "x \<in> set (take 3 S)"
proof (rule ccontr)
  assume out: "x \<notin> set (take 3 S)"
  have "x \<in> set S" using perm by (metis in_set_conv_decomp mset_eq_setD)
  then have tail: "x \<in> set (drop 3 S)"
    using out by (metis Un_iff append_take_drop_id set_append)
  then have len: "length (take 3 S) = 3" by (cases "length S \<le> 3") auto
  have "sorted_wrt by_distance (take 3 S @ drop 3 S)" using sorted by simp
  then have before: "\<forall>y \<in> set (take 3 S). by_distance y x"
    using tail unfolding sorted_wrt_append by blast
  have "mset (take 3 S) + mset (drop 3 S) = add_mset x (mset others)"
    using perm by (metis append_take_drop_id mset_append mset.simps(2) union_mset_add_mset_right add.right_neutral mset.simps(1))
  moreover have "x \<in># mset (drop 3 S)" using tail by simp
  ultimately have sub: "mset (take 3 S) \<subseteq># mset others"
    by (metis add_mset_remove_trivial insert_DiffM mset_subset_eq_add_left union_mset_add_mset_right)
  have "filter_mset (\<lambda>r. by_distance r x) (mset (take 3 S)) = mset (take 3 S)"
    using before by (simp add: filter_mset_eq_conv)
  then have "size (mset (take 3 S)) \<le> size (filter_mset (\<lambda>r. by_distance r x) (mset others))"
    using sub by (metis multiset_filter_mono size_mset_mono)
  then have "3 \<le> length (filter (\<lambda>r. by_distance r x) others)"
    using len by (simp flip: mset_filter)
  with few show False by simp
qed

lemma nearest_is_first:
  assumes sorted: "sorted_wrt by_distance S"
    and perm: "mset S = mset (others @ [x])"
    and far: "list_all (\<lambda>r. \<not> by_distance r x) others"
  shows "take 1 S = [x]"
proof -
  have set_eq: "set S = insert x (set others)" using perm by (metis mset_eq_setD set_append list.simps(15) Un_insert_right sup_bot.right_neutral set_simps(1) empty_set)
  then obtain y S' where S: "S = y # S'" by (cases S) auto
  have "y = x"
  proof (rule ccontr)
    assume "y \<noteq> x"
    with set_eq S have y: "y \<in> set others" and "x \<in> set S'" by auto
    then have "by_distance y x" using sorted S by auto
    with far y show False by (simp add: list_all_iff)
  qed
  with S show ?thesis by simp
qed

subsection \<open>Effects on the database\<close>

lemma add_document_db:
  "db (fst (add_document be w doc)) =
     (case embed_query be (dc_content doc) of
        None \<Rightarrow> db w
      | Some v \<Rightarrow>
          if length v \<noteq> dimension then db w
          else (db w)\<lparr>documents := documents (db w) @
                  [\<lparr>doc_id = documents_id_seq (db w) + 1, content = Some (dc_content doc),
                    embedding = Some v\<rparr>],
                documents_id_seq := documents_id_seq (db w) + 1\<rparr>)"
  by (simp add: add_document_def Let_def split: option.splits)

lemma search_document_db: "db (fst (search_document be w payload)) = db w"
  by (simp add: search_document_def Let_def split: option.splits)

lemma delete_item_documents: "documents (db (fst (delete_item w iid))) = documents (db w)"
  by (simp add: delete_item_def split: option.splits)

lemma handle_documents_ok: "documents_ok (db w) \<Longrightarrow> documents_ok (db (handle be w r))"
proof (cases r)
  case (AddDocument doc)
  assume "documents_ok (db w)"
  then show ?thesis
    by (simp add: AddDocument add_document_db documents_ok_def document_ok_def split: option.splits)
next
  case (SearchDocument payload)
  assume "documents_ok (db w)"
  then show ?thesis by (simp add: SearchDocument search_document_db)
next
  case (DeleteItem iid)
  assume "documents_ok (db w)"
  then show ?thesis by (simp add: DeleteItem documents_ok_def delete_item_documents)
qed

lemma run_documents_ok: "documents_ok (db w) \<Longrightarrow> documents_ok (db (run be w rs))"
  by (induction rs arbitrary: w) (simp_all add: handle_documents_ok)

lemma fresh_documents_ok: "documents_ok (db fresh)"
  by (simp add: fresh_def documents_ok_def)

lemma search_endpoint_query:
  "body ''query'' = Some (JStr text) \<Longrightarrow>
     search_endpoint be w body = search_document be w \<lparr>query = text\<rparr>"
  by (simp add: search_endpoint_def parse_SearchQuery_def)

lemma search_document_calls:
  "embed_calls (fst (search_document be w payload)) = embed_calls w @ [query payload]"
  by (simp add: search_document_def Let_def split: option.splits)

lemma search_document_hits:
  "snd (search_document be w payload) = Inr hits \<Longrightarrow>
     \<exists>q. embed_query be (query payload) = Some q \<and>
         build_hits (ranked_rows be q (documents (db w))) = Inr hits"
  by (auto simp: search_document_def Let_def split: option.splits if_splits)

subsection \<open>The ranking of \<open>search_document\<close>\<close>

lemma ranked_rows_sorted:
  "sorts_by_distance (order_by be) \<Longrightarrow> sorted_wrt by_distance (ranked_rows be q docs)"
  by (simp add: ranked_rows_def sorted_wrt_take sorts_sorted)

lemma ranked_rows_length: "length (ranked_rows be q docs) \<le> 3"
  by (simp add: ranked_rows_def)

lemma ranked_rows_shape:
  assumes "sorts_by_distance (order_by be)"
  shows "\<exists>ds. mset ds = mset docs \<and>
           order_by be (map (\<lambda>d. (d, distance_column be q d)) docs) =
             map (\<lambda>d. (d, distance_column be q d)) ds"
proof -
  let ?f = "\<lambda>d. (d, distance_column be q d)"
  let ?S = "order_by be (map ?f docs)"
  have mset: "mset ?S = mset (map ?f docs)" using assms by (rule sorts_mset)
  then have "set ?S = set (map ?f docs)" by (rule mset_eq_setD)
  then have "\<forall>r \<in> set ?S. ?f (fst r) = r" by auto
  then have "map ?f (map fst ?S) = ?S" by (simp add: map_idI)
  moreover have "mset (map fst ?S) = mset docs"
  proof -
    have "mset (map fst ?S) = image_mset fst (mset ?S)" by simp
    also have "\<dots> = image_mset fst (mset (map ?f docs))" by (simp only: mset)
    also have "\<dots> = mset docs" by (simp add: image_mset.compositionality comp_def)
    finally show ?thesis .
  qed
  ultimately show ?thesis by metis
qed

lemma search_document_ranked:
  assumes conf: "sorts_by_distance (order_by be)" and ok: "documents_ok (db w)"
    and emb: "embed_query be (query payload) = Some v" and len: "length v = dimension"
  shows "\<exists>hits ds. snd (search_document be w payload) = Inr hits \<and>
           mset ds = mset (documents (db w)) \<and>
           sorted_wrt (\<lambda>a b. distance_le (distance_column be v a) (distance_column be v b)) ds \<and>
           list_all2 (hit_matches be v) hits (take 3 ds)"
proof -
  let ?f = "\<lambda>d. (d, distance_column be v d)"
  obtain ds where ds: "mset ds = mset (documents (db w))"
    and shape: "order_by be (map ?f (documents (db w))) = map ?f ds"
    using ranked_rows_shape [OF conf] by blast
  have "sorted_wrt by_distance (map ?f ds)"
    using sorts_sorted [OF conf, of "map ?f (documents (db w))"] by (simp only: shape)
  then have sorted: "sorted_wrt (\<lambda>a b. distance_le (distance_column be v a) (distance_column be v b)) ds"
    by (simp add: sorted_wrt_map by_distance_def)
  have "set ds = set (documents (db w))" using ds by (rule mset_eq_setD)
  then have "list_all document_ok ds" using ok by (simp add: documents_ok_def list_all_iff)
  then have "list_all document_ok (take 3 ds)"
    by (auto simp: list_all_iff dest: in_set_takeD)
  then have "list_all (\<lambda>r. snd r \<noteq> None) (map ?f (take 3 ds))"
    using document_ok_distance [of _ be v] by (auto simp: list_all_iff)
  then obtain hits where hits: "build_hits (map ?f (take 3 ds)) = Inr hits"
    using build_hits_total by blast
  then have "list_all2 (hit_matches be v) hits (take 3 ds)" by (simp add: build_hits_rows)
  moreover have "snd (search_document be w payload) = Inr hits"
    using emb len hits by (simp add: search_document_def ranked_rows_def shape take_map Let_def)
  ultimately show ?thesis using ds sorted by blast
qed

section \<open>The concrete worlds, evaluated\<close>

lemma scenario_eq:
  "scenario =
     \<lparr>db = \<lparr>items = [],
            documents =
              [\<lparr>doc_id = 1, content = Some ''the cat sat on the mat'', embedding = Some cat_vector\<rparr>,
               \<lparr>doc_id = 2, content = Some ''a dog lay on the rug'', embedding = Some dog_vector\<rparr>],
            documents_id_seq = 2\<rparr>,
      embed_calls = [''the cat sat on the mat'', ''a dog lay on the rug'']\<rparr>"
  by (simp add: scenario_def fresh_def add_document_def toy_backend_def toy_embed_def toy_lengths Let_def)

lemma dog_only_eq:
  "dog_only =
     \<lparr>db = \<lparr>items = [],
            documents =
              [\<lparr>doc_id = 1, content = Some ''a dog lay on the rug'', embedding = Some dog_vector\<rparr>],
            documents_id_seq = 1\<rparr>,
      embed_calls = [''a dog lay on the rug'']\<rparr>"
  by (simp add: dog_only_def fresh_def add_document_def toy_backend_def toy_embed_def toy_lengths Let_def)

lemma worlds:
  "three_cats =
     \<lparr>db = \<lparr>items = [],
            documents =
              [\<lparr>doc_id = 1, content = Some ''the cat sat on the mat'', embedding = Some cat_vector\<rparr>,
               \<lparr>doc_id = 2, content = Some ''the cat sat on the mat'', embedding = Some cat_vector\<rparr>,
               \<lparr>doc_id = 3, content = Some ''the cat sat on the mat'', embedding = Some cat_vector\<rparr>],
            documents_id_seq = 3\<rparr>,
      embed_calls = [''the cat sat on the mat'', ''the cat sat on the mat'', ''the cat sat on the mat'']\<rparr>"
  "db four_documents =
     \<lparr>items = [],
      documents =
        [\<lparr>doc_id = 1, content = Some ''the cat sat on the mat'', embedding = Some cat_vector\<rparr>,
         \<lparr>doc_id = 2, content = Some ''a dog lay on the rug'', embedding = Some dog_vector\<rparr>,
         \<lparr>doc_id = 3, content = Some ''a cat on a rug'', embedding = Some cat_vector\<rparr>,
         \<lparr>doc_id = 4, content = Some ''a dog on a mat'', embedding = Some dog_vector\<rparr>],
      documents_id_seq = 4\<rparr>"
  "db twins =
     \<lparr>items = [],
      documents =
        [\<lparr>doc_id = 1, content = Some ''the cat sat on the mat'', embedding = Some cat_vector\<rparr>,
         \<lparr>doc_id = 2, content = Some ''the cat sat on the mat'', embedding = Some cat_vector\<rparr>],
      documents_id_seq = 2\<rparr>"
  by (simp_all add: three_cats_def four_documents_def twins_def scenario_eq fresh_def add_document_def
      toy_backend_def reversing_backend_def toy_embed_def toy_lengths Let_def)

lemmas toy_eval = search_document_def search_endpoint_def parse_SearchQuery_def ranked_rows_def
  distance_column_def by_distance_def toy_backend_def reversing_backend_def reverse_scan_sort_def
  toy_embed_def toy_lengths toy_distances Let_def

lemma scenario_search:
  "snd (search_document toy_backend scenario \<lparr>query = ''cat on a mat''\<rparr>) =
     Inr [\<lparr>hit_id = 1, hit_content = Some ''the cat sat on the mat'', hit_distance = 0\<rparr>,
          \<lparr>hit_id = 2, hit_content = Some ''a dog lay on the rug'', hit_distance = 1\<rparr>]"
  by (simp add: scenario_eq toy_eval)

lemma four_search:
  "snd (search_endpoint toy_backend four_documents [''query'' \<mapsto> JStr ''cat on a mat'', ''k'' \<mapsto> JNum 4]) =
     Inr [\<lparr>hit_id = 1, hit_content = Some ''the cat sat on the mat'', hit_distance = 0\<rparr>,
          \<lparr>hit_id = 3, hit_content = Some ''a cat on a rug'', hit_distance = 0\<rparr>,
          \<lparr>hit_id = 2, hit_content = Some ''a dog lay on the rug'', hit_distance = 1\<rparr>]"
  by (simp add: worlds toy_eval)

lemma twins_search:
  "snd (search_document reversing_backend twins \<lparr>query = ''the cat sat on the mat''\<rparr>) =
     Inr [\<lparr>hit_id = 2, hit_content = Some ''the cat sat on the mat'', hit_distance = 0\<rparr>,
          \<lparr>hit_id = 1, hit_content = Some ''the cat sat on the mat'', hit_distance = 0\<rparr>]"
  by (simp add: worlds toy_eval)

lemma cats_search:
  "snd (search_document toy_backend
         (fst (add_document toy_backend three_cats \<lparr>dc_content = ''the cat sat on the mat''\<rparr>))
         \<lparr>query = ''the cat sat on the mat''\<rparr>) =
     Inr [\<lparr>hit_id = 1, hit_content = Some ''the cat sat on the mat'', hit_distance = 0\<rparr>,
          \<lparr>hit_id = 2, hit_content = Some ''the cat sat on the mat'', hit_distance = 0\<rparr>,
          \<lparr>hit_id = 3, hit_content = Some ''the cat sat on the mat'', hit_distance = 0\<rparr>]"
  by (simp add: worlds add_document_def toy_eval)

lemma toy_sorts: "sorts_by_distance (order_by toy_backend)"
  by (simp add: toy_backend_def scan_order_sort_sorts)

lemma toy_embed_cat: "embed_query toy_backend ''cat on a mat'' = Some cat_vector"
  by (simp add: toy_backend_def toy_embed_def)

lemma scenario_ok: "documents_ok (db scenario)"
  by (simp add: scenario_eq documents_ok_def document_ok_def toy_lengths)

section \<open>The claims\<close>

text \<open>
  Claim C1, amended (ingest, then search the same text). After \<open>add_document\<close> of
  a text whose embedding \<open>v\<close> has 768 numbers, the search for that text succeeds. The
  new document, with the id the addition returned and the distance the operator gives
  between \<open>v\<close> and itself, is in the reply whenever fewer than 3 of the documents
  stored before are at that distance or nearer, and is its first row whenever every
  document stored before is farther.
\<close>

theorem ingest_then_search:
  assumes "sorts_by_distance (order_by be)" and "documents_ok (db w)"
    and "embed_query be text = Some v" and "length v = dimension"
  shows "\<exists>hits.
      snd (add_document be w \<lparr>dc_content = text\<rparr>) =
        Inr \<lparr>reply_id = documents_id_seq (db w) + 1, message = ''Stored with embedding '' @ fire\<rparr> \<and>
      snd (search_document be (fst (add_document be w \<lparr>dc_content = text\<rparr>)) \<lparr>query = text\<rparr>) =
        Inr hits \<and>
      (length (filter (\<lambda>d. distance_le (distance_column be v d) (Some (cosine_distance be v v)))
                 (documents (db w))) < 3 \<longrightarrow>
         \<lparr>hit_id = documents_id_seq (db w) + 1, hit_content = Some text,
          hit_distance = cosine_distance be v v\<rparr> \<in> set hits) \<and>
      (list_all (\<lambda>d. \<not> distance_le (distance_column be v d) (Some (cosine_distance be v v)))
                 (documents (db w)) \<longrightarrow>
         take 1 hits =
           [\<lparr>hit_id = documents_id_seq (db w) + 1, hit_content = Some text,
             hit_distance = cosine_distance be v v\<rparr>])"
proof -
  let ?w1 = "fst (add_document be w \<lparr>dc_content = text\<rparr>)"
  let ?new = "\<lparr>doc_id = documents_id_seq (db w) + 1, content = Some text, embedding = Some v\<rparr>"
  let ?d0 = "cosine_distance be v v"
  let ?f = "\<lambda>d. (d, distance_column be v d)"
  let ?docs = "documents (db w)"
  let ?S = "order_by be (map ?f ?docs @ [?f ?new])"
  have reply: "snd (add_document be w \<lparr>dc_content = text\<rparr>) =
      Inr \<lparr>reply_id = documents_id_seq (db w) + 1, message = ''Stored with embedding '' @ fire\<rparr>"
    using assms(3,4) by (simp add: add_document_def Let_def)
  have docs1: "documents (db ?w1) = ?docs @ [?new]"
    using assms(3,4) by (simp add: add_document_db)
  have new: "?f ?new = (?new, Some ?d0)" by (simp add: distance_column_def)
  have ok1: "list_all document_ok (?docs @ [?new])"
    using assms(2,4) by (simp add: documents_ok_def document_ok_def)
  have "set ?S = set (map ?f (?docs @ [?new]))"
    using sorts_set [OF assms(1)] by simp
  then have "list_all (\<lambda>r. snd r \<noteq> None) ?S"
    using ok1 document_ok_distance [of _ be v] by (auto simp: list_all_iff)
  then have "list_all (\<lambda>r. snd r \<noteq> None) (take 3 ?S)"
    by (auto simp: list_all_iff dest: in_set_takeD)
  then obtain hits where hits: "build_hits (take 3 ?S) = Inr hits"
    using build_hits_total by blast
  have res: "snd (search_document be ?w1 \<lparr>query = text\<rparr>) = Inr hits"
    using assms(3,4) hits
    by (simp add: search_document_def ranked_rows_def docs1 Let_def)
  have sorted: "sorted_wrt by_distance ?S" using assms(1) by (rule sorts_sorted)
  have perm: "mset ?S = mset (map ?f ?docs @ [(?new, Some ?d0)])"
    using sorts_mset [OF assms(1)] by (simp add: new)
  have member: "\<lparr>hit_id = documents_id_seq (db w) + 1, hit_content = Some text,
      hit_distance = ?d0\<rparr> \<in> set hits"
    if "length (filter (\<lambda>d. distance_le (distance_column be v d) (Some ?d0)) ?docs) < 3"
  proof -
    have "filter (\<lambda>r. by_distance r (?new, Some ?d0)) (map ?f ?docs) =
        map ?f (filter (\<lambda>d. distance_le (distance_column be v d) (Some ?d0)) ?docs)"
      by (simp add: filter_map comp_def by_distance_def)
    then have "length (filter (\<lambda>r. by_distance r (?new, Some ?d0)) (map ?f ?docs)) < 3"
      using that by simp
    with sorted perm have "(?new, Some ?d0) \<in> set (take 3 ?S)" by (rule first_three_member)
    with hits show ?thesis using build_hits_member [of "take 3 ?S" hits ?new ?d0] by simp
  qed
  have first: "take 1 hits = [\<lparr>hit_id = documents_id_seq (db w) + 1, hit_content = Some text,
      hit_distance = ?d0\<rparr>]"
    if "list_all (\<lambda>d. \<not> distance_le (distance_column be v d) (Some ?d0)) ?docs"
  proof -
    have "list_all (\<lambda>r. \<not> by_distance r (?new, Some ?d0)) (map ?f ?docs)"
      using that by (simp add: list_all_iff by_distance_def)
    with sorted perm have "take 1 ?S = [(?new, Some ?d0)]" by (rule nearest_is_first)
    then have "take 1 (take 3 ?S) = [(?new, Some ?d0)]" by simp
    with hits show ?thesis using build_hits_first [of "take 3 ?S" hits ?new ?d0] by simp
  qed
  show ?thesis using reply res member first by blast
qed

text \<open>
  The store holds the dog text; the cat text is added and searched: it comes first,
  at distance 0.
\<close>

theorem ingest_then_search_witness:
  "sorts_by_distance (order_by toy_backend) \<and> documents_ok (db dog_only) \<and>
   embed_query toy_backend ''the cat sat on the mat'' = Some cat_vector \<and>
   length cat_vector = dimension \<and>
   cosine_distance toy_backend cat_vector cat_vector = 0 \<and>
   length (filter (\<lambda>d. distance_le (distance_column toy_backend cat_vector d) (Some 0))
             (documents (db dog_only))) < 3 \<and>
   list_all (\<lambda>d. \<not> distance_le (distance_column toy_backend cat_vector d) (Some 0))
             (documents (db dog_only)) \<and>
   snd (add_document toy_backend dog_only \<lparr>dc_content = ''the cat sat on the mat''\<rparr>) =
     Inr \<lparr>reply_id = 2, message = ''Stored with embedding '' @ fire\<rparr> \<and>
   (\<exists>hits. snd (search_document toy_backend
                 (fst (add_document toy_backend dog_only \<lparr>dc_content = ''the cat sat on the mat''\<rparr>))
                 \<lparr>query = ''the cat sat on the mat''\<rparr>) = Inr hits \<and>
      \<lparr>hit_id = 2, hit_content = Some ''the cat sat on the mat'', hit_distance = 0\<rparr> \<in> set hits \<and>
      take 1 hits = [\<lparr>hit_id = 2, hit_content = Some ''the cat sat on the mat'', hit_distance = 0\<rparr>])"
proof -
  have emb: "embed_query toy_backend ''the cat sat on the mat'' = Some cat_vector"
    by (simp add: toy_backend_def toy_embed_def)
  have ok: "documents_ok (db dog_only)"
    by (simp add: dog_only_eq documents_ok_def document_ok_def toy_lengths)
  have d0: "cosine_distance toy_backend cat_vector cat_vector = 0"
    by (simp add: toy_backend_def toy_distances)
  have seq: "documents_id_seq (db dog_only) + 1 = 2" by (simp add: dog_only_eq)
  have few: "length (filter (\<lambda>d. distance_le (distance_column toy_backend cat_vector d) (Some 0))
             (documents (db dog_only))) < 3"
    by (simp add: dog_only_eq)
  have far: "list_all (\<lambda>d. \<not> distance_le (distance_column toy_backend cat_vector d) (Some 0))
             (documents (db dog_only))"
    by (simp add: dog_only_eq distance_column_def toy_backend_def toy_distances)
  note inst = ingest_then_search [OF toy_sorts ok emb toy_lengths(1), unfolded d0 seq]
  from inst few far toy_sorts ok emb toy_lengths(1) d0 show ?thesis by blast
qed

text \<open>
  Claim C1 as stated fails: the store holds the same text three times; ingesting it a
  fourth time yields id 4, and the search for that text returns the ids 1, 2 and 3.
\<close>

theorem ingest_then_search_counterexample:
  "snd (add_document toy_backend three_cats \<lparr>dc_content = ''the cat sat on the mat''\<rparr>) =
     Inr \<lparr>reply_id = 4, message = ''Stored with embedding '' @ fire\<rparr> \<and>
   map_sum id (map hit_id)
     (snd (search_document toy_backend
        (fst (add_document toy_backend three_cats \<lparr>dc_content = ''the cat sat on the mat''\<rparr>))
        \<lparr>query = ''the cat sat on the mat''\<rparr>)) = Inr [1, 2, 3] \<and>
   4 \<notin> set [1, 2, 3 :: int]"
  by (simp add: cats_search) (simp add: worlds add_document_def toy_eval)

text \<open>
  Claim C2, amended (order of the ranking). The reply matches, row by row, the first 3
  documents of an arrangement of the whole table in ascending order of distance, so
  its distances ascend. Nothing orders documents at equal distance; when the stored
  distances are pairwise distinct, every database that orders by distance returns the
  same reply.
\<close>

theorem ranking_order:
  assumes "sorts_by_distance (order_by be)" and "documents_ok (db w)"
    and "embed_query be text = Some v" and "length v = dimension"
  shows "\<exists>hits ds. snd (search_document be w \<lparr>query = text\<rparr>) = Inr hits \<and>
           mset ds = mset (documents (db w)) \<and>
           sorted_wrt (\<lambda>a b. distance_le (distance_column be v a) (distance_column be v b)) ds \<and>
           list_all2 (hit_matches be v) hits (take 3 ds) \<and>
           sorted (map hit_distance hits) \<and>
           (\<forall>ob. sorts_by_distance ob \<and> distinct (map (distance_column be v) (documents (db w))) \<longrightarrow>
              snd (search_document (be\<lparr>order_by := ob\<rparr>) w \<lparr>query = text\<rparr>) = Inr hits)"
proof -
  obtain hits ds where res: "snd (search_document be w \<lparr>query = text\<rparr>) = Inr hits"
    and perm: "mset ds = mset (documents (db w))"
    and sorted: "sorted_wrt (\<lambda>a b. distance_le (distance_column be v a) (distance_column be v b)) ds"
    and rel: "list_all2 (hit_matches be v) hits (take 3 ds)"
    using search_document_ranked [of be w "\<lparr>query = text\<rparr>" v] assms by auto
  have asc: "sorted (map hit_distance hits)"
    using rel sorted_wrt_take [OF sorted] by (rule matches_sorted)
  have same: "snd (search_document (be\<lparr>order_by := ob\<rparr>) w \<lparr>query = text\<rparr>) = Inr hits"
    if ob: "sorts_by_distance ob"
      and dist: "distinct (map (distance_column be v) (documents (db w)))" for ob
  proof -
    let ?rows = "map (\<lambda>d. (d, distance_column be v d)) (documents (db w))"
    have "distinct (map snd ?rows)" using dist by (simp add: comp_def)
    then have "distinct (map snd (ob ?rows))"
      using sorts_mset [OF ob, of ?rows] by (metis mset_map mset_eq_imp_distinct_iff)
    then have "ob ?rows = order_by be ?rows"
      using sorts_sorted [OF ob] sorts_sorted [OF assms(1)] sorts_mset [OF ob] sorts_mset [OF assms(1)]
      by (intro sorted_rows_unique) simp_all
    moreover have "distance_column (be\<lparr>order_by := ob\<rparr>) v = distance_column be v"
      by (simp add: fun_eq_iff distance_column_def)
    ultimately have "search_document (be\<lparr>order_by := ob\<rparr>) w \<lparr>query = text\<rparr> =
        search_document be w \<lparr>query = text\<rparr>"
      using assms(3,4) by (simp add: search_document_def ranked_rows_def Let_def)
    with res show ?thesis by simp
  qed
  show ?thesis using res perm sorted rel asc same by blast
qed

text \<open>
  The store of the two documents, at distances 0 and 1 from the query: the database
  with the other tie order returns the same reply.
\<close>

theorem ranking_order_witness:
  "sorts_by_distance (order_by toy_backend) \<and> documents_ok (db scenario) \<and>
   embed_query toy_backend ''cat on a mat'' = Some cat_vector \<and> length cat_vector = dimension \<and>
   sorts_by_distance reverse_scan_sort \<and>
   distinct (map (distance_column toy_backend cat_vector) (documents (db scenario))) \<and>
   snd (search_document toy_backend scenario \<lparr>query = ''cat on a mat''\<rparr>) =
     Inr [\<lparr>hit_id = 1, hit_content = Some ''the cat sat on the mat'', hit_distance = 0\<rparr>,
          \<lparr>hit_id = 2, hit_content = Some ''a dog lay on the rug'', hit_distance = 1\<rparr>] \<and>
   snd (search_document (toy_backend\<lparr>order_by := reverse_scan_sort\<rparr>) scenario
          \<lparr>query = ''cat on a mat''\<rparr>) =
     Inr [\<lparr>hit_id = 1, hit_content = Some ''the cat sat on the mat'', hit_distance = 0\<rparr>,
          \<lparr>hit_id = 2, hit_content = Some ''a dog lay on the rug'', hit_distance = 1\<rparr>] \<and>
   sorted (map hit_distance
     [\<lparr>hit_id = 1, hit_content = Some ''the cat sat on the mat'', hit_distance = 0\<rparr>,
      \<lparr>hit_id = 2, hit_content = Some ''a dog lay on the rug'', hit_distance = 1\<rparr>])"
proof -
  let ?H = "[\<lparr>hit_id = 1, hit_content = Some ''the cat sat on the mat'', hit_distance = 0\<rparr>,
             \<lparr>hit_id = 2, hit_content = Some ''a dog lay on the rug'', hit_distance = 1\<rparr>]"
  have dist: "distinct (map (distance_column toy_backend cat_vector) (documents (db scenario)))"
    by (simp add: scenario_eq distance_column_def toy_backend_def toy_distances)
  obtain hits where res: "snd (search_document toy_backend scenario \<lparr>query = ''cat on a mat''\<rparr>) = Inr hits"
    and asc: "sorted (map hit_distance hits)"
    and same: "\<forall>ob. sorts_by_distance ob \<and>
        distinct (map (distance_column toy_backend cat_vector) (documents (db scenario))) \<longrightarrow>
        snd (search_document (toy_backend\<lparr>order_by := ob\<rparr>) scenario \<lparr>query = ''cat on a mat''\<rparr>) = Inr hits"
    using ranking_order [OF toy_sorts scenario_ok toy_embed_cat toy_lengths(1)] by blast
  have hits: "hits = ?H" using res by (simp add: scenario_search)
  have "snd (search_document (toy_backend\<lparr>order_by := reverse_scan_sort\<rparr>) scenario
          \<lparr>query = ''cat on a mat''\<rparr>) = Inr ?H"
    using same reverse_scan_sort_sorts dist unfolding hits by blast
  moreover have "sorted (map hit_distance ?H)" using asc unfolding hits .
  ultimately show ?thesis
    using toy_sorts scenario_ok toy_embed_cat toy_lengths(1) reverse_scan_sort_sorts dist scenario_search
    by (intro conjI) blast+
qed

text \<open>
  Claim C2 as stated fails: two documents with the same text are at the same distance
  from the query, and a database that orders by distance may return id 2 before id 1.
\<close>

theorem tie_break_counterexample:
  "sorts_by_distance (order_by reversing_backend) \<and>
   snd (search_document reversing_backend twins \<lparr>query = ''the cat sat on the mat''\<rparr>) =
     Inr [\<lparr>hit_id = 2, hit_content = Some ''the cat sat on the mat'', hit_distance = 0\<rparr>,
          \<lparr>hit_id = 1, hit_content = Some ''the cat sat on the mat'', hit_distance = 0\<rparr>] \<and>
   \<not> (2::int) \<le> 1"
  by (simp add: twins_search) (simp add: reversing_backend_def toy_backend_def reverse_scan_sort_sorts)

text \<open>
  Claim C3 (dimension validation). When the embedding of the text has a length other
  than 768, \<open>add_document\<close> and \<open>search_document\<close> both fail with
  \<open>DimensionMismatch\<close>, and the database after the call is the database before it.
\<close>

theorem wrong_dimension_rejected:
  assumes "embed_query be text = Some v" and "length v \<noteq> dimension"
  shows "snd (add_document be w \<lparr>dc_content = text\<rparr>) = Inl DimensionMismatch \<and>
         db (fst (add_document be w \<lparr>dc_content = text\<rparr>)) = db w \<and>
         snd (search_document be w \<lparr>query = text\<rparr>) = Inl DimensionMismatch \<and>
         db (fst (search_document be w \<lparr>query = text\<rparr>)) = db w"
  using assms by (simp add: add_document_def search_document_def Let_def)

text \<open>A model of 3 dimensions, on the store of the two documents.\<close>

theorem wrong_dimension_rejected_witness:
  "embed_query short_backend ''cat on a mat'' = Some [1, 0, 0] \<and>
   length [1, 0, 0 :: real] \<noteq> dimension \<and>
   snd (add_document short_backend scenario \<lparr>dc_content = ''cat on a mat''\<rparr>) = Inl DimensionMismatch \<and>
   db (fst (add_document short_backend scenario \<lparr>dc_content = ''cat on a mat''\<rparr>)) = db scenario \<and>
   snd (search_document short_backend scenario \<lparr>query = ''cat on a mat''\<rparr>) = Inl DimensionMismatch \<and>
   db (fst (search_document short_backend scenario \<lparr>query = ''cat on a mat''\<rparr>)) = db scenario"
  using wrong_dimension_rejected [of short_backend "''cat on a mat''" "[1, 0, 0]" scenario]
  by (simp add: short_backend_def dimension_def)

text \<open>
  Claim C4 (ingestion atomicity). When the embedding call of \<open>add_document\<close> fails,
  the call fails with \<open>EmbeddingUnavailable\<close> and the database, the table of
  documents and its sequence included, is left as it was: no row is written.
\<close>

theorem embedding_failure_writes_nothing:
  "embed_query be (dc_content doc) = None \<Longrightarrow>
     snd (add_document be w doc) = Inl EmbeddingUnavailable \<and>
     db (fst (add_document be w doc)) = db w"
  by (simp add: add_document_def Let_def)

text \<open>The model is down while the store holds two documents.\<close>

theorem embedding_failure_writes_nothing_witness:
  "embed_query offline_backend (dc_content \<lparr>dc_content = ''cat on a mat''\<rparr>) = None \<and>
   snd (add_document offline_backend scenario \<lparr>dc_content = ''cat on a mat''\<rparr>) = Inl EmbeddingUnavailable \<and>
   db (fst (add_document offline_backend scenario \<lparr>dc_content = ''cat on a mat''\<rparr>)) = db scenario"
  using embedding_failure_writes_nothing [of offline_backend "\<lparr>dc_content = ''cat on a mat''\<rparr>" scenario]
  by (simp add: offline_backend_def)

text \<open>
  Claim C5, amended (the query pipeline and \<open>k\<close>). The route reads the query text
  from the body and nothing else: a \<open>k\<close> in the body changes nothing. It embeds the
  text exactly once, and a successful reply has at most 3 rows, in ascending order of
  distance when the database orders by distance.
\<close>

theorem search_ignores_k:
  assumes "body ''query'' = Some (JStr text)"
  shows "search_endpoint be w (body(''k'' \<mapsto> kv)) = search_document be w \<lparr>query = text\<rparr> \<and>
         search_endpoint be w body = search_document be w \<lparr>query = text\<rparr> \<and>
         embed_calls (fst (search_endpoint be w body)) = embed_calls w @ [text] \<and>
         (\<forall>hits. snd (search_endpoint be w body) = Inr hits \<longrightarrow>
            length hits \<le> 3 \<and>
            (sorts_by_distance (order_by be) \<longrightarrow> sorted (map hit_distance hits)))"
proof -
  have a: "search_endpoint be w (body(''k'' \<mapsto> kv)) = search_document be w \<lparr>query = text\<rparr>"
    using assms by (simp add: search_endpoint_query)
  have b: "search_endpoint be w body = search_document be w \<lparr>query = text\<rparr>"
    using assms by (rule search_endpoint_query)
  have c: "embed_calls (fst (search_endpoint be w body)) = embed_calls w @ [text]"
    by (simp add: b search_document_calls)
  have d: "length hits \<le> 3 \<and> (sorts_by_distance (order_by be) \<longrightarrow> sorted (map hit_distance hits))"
    if "snd (search_endpoint be w body) = Inr hits" for hits
  proof -
    from that obtain q where q: "build_hits (ranked_rows be q (documents (db w))) = Inr hits"
      using search_document_hits [of be w "\<lparr>query = text\<rparr>" hits] by (auto simp: b)
    have "length hits \<le> 3"
      using build_hits_length [OF q] ranked_rows_length [of be q "documents (db w)"] by simp
    moreover have "sorted (map hit_distance hits)" if "sorts_by_distance (order_by be)"
      using build_hits_sorted [OF q] ranked_rows_sorted [OF that] by blast
    ultimately show ?thesis by blast
  qed
  show ?thesis using a b c d by blast
qed

text \<open>The store of the two documents, queried with and without \<open>k = 1\<close>.\<close>

theorem search_ignores_k_witness:
  "[''query'' \<mapsto> JStr ''cat on a mat''] ''query'' = Some (JStr ''cat on a mat'') \<and>
   sorts_by_distance (order_by toy_backend) \<and>
   search_endpoint toy_backend scenario [''query'' \<mapsto> JStr ''cat on a mat'', ''k'' \<mapsto> JNum 1] =
     search_document toy_backend scenario \<lparr>query = ''cat on a mat''\<rparr> \<and>
   embed_calls (fst (search_endpoint toy_backend scenario [''query'' \<mapsto> JStr ''cat on a mat''])) =
     embed_calls scenario @ [''cat on a mat''] \<and>
   snd (search_endpoint toy_backend scenario [''query'' \<mapsto> JStr ''cat on a mat'']) =
     Inr [\<lparr>hit_id = 1, hit_content = Some ''the cat sat on the mat'', hit_distance = 0\<rparr>,
          \<lparr>hit_id = 2, hit_content = Some ''a dog lay on the rug'', hit_distance = 1\<rparr>] \<and>
   length [\<lparr>hit_id = 1, hit_content = Some ''the cat sat on the mat'', hit_distance = 0\<rparr>,
           \<lparr>hit_id = 2, hit_content = Some ''a dog lay on the rug'', hit_distance = 1\<rparr>] \<le> 3 \<and>
   sorted (map hit_distance
     [\<lparr>hit_id = 1, hit_content = Some ''the cat sat on the mat'', hit_distance = 0\<rparr>,
      \<lparr>hit_id = 2, hit_content = Some ''a dog lay on the rug'', hit_distance = 1\<rparr>])"
proof -
  let ?body = "[''query'' \<mapsto> JStr ''cat on a mat'']"
  let ?H = "[\<lparr>hit_id = 1, hit_content = Some ''the cat sat on the mat'', hit_distance = 0\<rparr>,
             \<lparr>hit_id = 2, hit_content = Some ''a dog lay on the rug'', hit_distance = 1\<rparr>]"
  have sorts: "sorts_by_distance (order_by toy_backend)"
    by (simp add: toy_backend_def scan_order_sort_sorts)
  have q: "?body ''query'' = Some (JStr ''cat on a mat'')" by simp
  note inst = search_ignores_k [of ?body "''cat on a mat''" toy_backend scenario "JNum 1", OF q]
  from inst have k: "search_endpoint toy_backend scenario (?body(''k'' \<mapsto> JNum 1)) =
      search_document toy_backend scenario \<lparr>query = ''cat on a mat''\<rparr>" by (rule conjunct1)
  from inst have same: "search_endpoint toy_backend scenario ?body =
      search_document toy_backend scenario \<lparr>query = ''cat on a mat''\<rparr>" by blast
  from inst have calls: "embed_calls (fst (search_endpoint toy_backend scenario ?body)) =
      embed_calls scenario @ [''cat on a mat'']" by blast
  have res: "snd (search_endpoint toy_backend scenario ?body) = Inr ?H"
    by (simp only: same scenario_search)
  from inst res sorts have "length ?H \<le> 3 \<and> sorted (map hit_distance ?H)" by blast
  with q sorts k calls res show ?thesis by (intro conjI) blast+
qed

text \<open>
  Claim C5 as stated fails: with \<open>k = 1\<close> in the body, the reply over the store of
  the two documents has 2 rows, more than \<open>k\<close>.
\<close>

theorem search_k_counterexample:
  "map_sum id length
     (snd (search_endpoint toy_backend scenario
        [''query'' \<mapsto> JStr ''cat on a mat'', ''k'' \<mapsto> JNum 1])) = Inr 2 \<and>
   \<not> (2::nat) \<le> 1"
  by (simp add: scenario_eq toy_eval)

text \<open>
  Claim C6, amended (completeness within the limit). When the store holds at most 3
  documents, all with content and a 768-embedding, and the query vector has 768
  numbers, the reply lists every stored document exactly once (it matches a
  permutation of the table row by row), each with its distance, in ascending order;
  the distances are non-negative when the distance operator is.
\<close>

theorem small_collection_complete:
  assumes "sorts_by_distance (order_by be)" and "documents_ok (db w)"
    and "embed_query be text = Some v" and "length v = dimension"
    and "length (documents (db w)) \<le> 3"
  shows "\<exists>hits ds. snd (search_document be w \<lparr>query = text\<rparr>) = Inr hits \<and>
           mset ds = mset (documents (db w)) \<and>
           list_all2 (hit_matches be v) hits ds \<and>
           sorted (map hit_distance hits) \<and>
           ((\<forall>a b. 0 \<le> cosine_distance be a b) \<longrightarrow> list_all (\<lambda>h. 0 \<le> hit_distance h) hits)"
proof -
  obtain hits ds where res: "snd (search_document be w \<lparr>query = text\<rparr>) = Inr hits"
    and perm: "mset ds = mset (documents (db w))"
    and sorted: "sorted_wrt (\<lambda>a b. distance_le (distance_column be v a) (distance_column be v b)) ds"
    and rel: "list_all2 (hit_matches be v) hits (take 3 ds)"
    using search_document_ranked [of be w "\<lparr>query = text\<rparr>" v] assms(1-4) by auto
  have "length ds = length (documents (db w))" using perm by (rule mset_eq_length)
  with assms(5) have all: "take 3 ds = ds" by simp
  have "sorted (map hit_distance hits)"
    using rel sorted unfolding all by (rule matches_sorted)
  moreover have "list_all (\<lambda>h. 0 \<le> hit_distance h) hits" if "\<forall>a b. 0 \<le> cosine_distance be a b"
    using rel that unfolding all by (rule matches_nonneg)
  ultimately show ?thesis using res perm rel unfolding all by blast
qed

text \<open>The store of the two documents: both come back, the cat first.\<close>

theorem small_collection_complete_witness:
  "sorts_by_distance (order_by toy_backend) \<and> documents_ok (db scenario) \<and>
   embed_query toy_backend ''cat on a mat'' = Some cat_vector \<and> length cat_vector = dimension \<and>
   length (documents (db scenario)) \<le> 3 \<and>
   (\<forall>a b. 0 \<le> cosine_distance toy_backend a b) \<and>
   snd (search_document toy_backend scenario \<lparr>query = ''cat on a mat''\<rparr>) =
     Inr [\<lparr>hit_id = 1, hit_content = Some ''the cat sat on the mat'', hit_distance = 0\<rparr>,
          \<lparr>hit_id = 2, hit_content = Some ''a dog lay on the rug'', hit_distance = 1\<rparr>] \<and>
   (\<exists>ds. mset ds = mset (documents (db scenario)) \<and>
      list_all2 (hit_matches toy_backend cat_vector)
        [\<lparr>hit_id = 1, hit_content = Some ''the cat sat on the mat'', hit_distance = 0\<rparr>,
         \<lparr>hit_id = 2, hit_content = Some ''a dog lay on the rug'', hit_distance = 1\<rparr>] ds) \<and>
   sorted (map hit_distance
     [\<lparr>hit_id = 1, hit_content = Some ''the cat sat on the mat'', hit_distance = 0\<rparr>,
      \<lparr>hit_id = 2, hit_content = Some ''a dog lay on the rug'', hit_distance = 1\<rparr>]) \<and>
   list_all (\<lambda>h. 0 \<le> hit_distance h)
     [\<lparr>hit_id = 1, hit_content = Some ''the cat sat on the mat'', hit_distance = 0\<rparr>,
      \<lparr>hit_id = 2, hit_content = Some ''a dog lay on the rug'', hit_distance = 1\<rparr>]"
proof -
  let ?H = "[\<lparr>hit_id = 1, hit_content = Some ''the cat sat on the mat'', hit_distance = 0\<rparr>,
             \<lparr>hit_id = 2, hit_content = Some ''a dog lay on the rug'', hit_distance = 1\<rparr>]"
  have small: "length (documents (db scenario)) \<le> 3" by (simp add: scenario_eq)
  have nonneg: "\<forall>a b. 0 \<le> cosine_distance toy_backend a b"
    by (simp add: toy_backend_def real_cosine_distance_nonneg)
  obtain hits ds where res: "snd (search_document toy_backend scenario \<lparr>query = ''cat on a mat''\<rparr>) = Inr hits"
    and perm: "mset ds = mset (documents (db scenario))"
    and rel: "list_all2 (hit_matches toy_backend cat_vector) hits ds"
    and asc: "sorted (map hit_distance hits)"
    and pos: "(\<forall>a b. 0 \<le> cosine_distance toy_backend a b) \<longrightarrow> list_all (\<lambda>h. 0 \<le> hit_distance h) hits"
    using small_collection_complete [OF toy_sorts scenario_ok toy_embed_cat toy_lengths(1) small]
    by blast
  have hits: "hits = ?H" using res by (simp add: scenario_search)
  have "\<exists>ds. mset ds = mset (documents (db scenario)) \<and> list_all2 (hit_matches toy_backend cat_vector) ?H ds"
    using perm rel unfolding hits by blast
  moreover have "sorted (map hit_distance ?H)" using asc unfolding hits .
  moreover have "list_all (\<lambda>h. 0 \<le> hit_distance h) ?H" using pos nonneg unfolding hits by blast
  ultimately show ?thesis
    using toy_sorts scenario_ok toy_embed_cat toy_lengths(1) small nonneg scenario_search
    by (intro conjI) blast+
qed

text \<open>
  Claim C6 as stated fails: the store holds 4 documents and the body asks for
  \<open>k = 4\<close>, yet the reply has the ids 1, 3 and 2 only; document 4 is missing.
\<close>

theorem complete_ranking_counterexample:
  "map doc_id (documents (db four_documents)) = [1, 2, 3, 4] \<and>
   map_sum id (map hit_id)
     (snd (search_endpoint toy_backend four_documents
        [''query'' \<mapsto> JStr ''cat on a mat'', ''k'' \<mapsto> JNum 4])) = Inr [1, 3, 2]"
  by (simp add: four_search) (simp add: worlds)

text \<open>
  Claim C7 (empty collection). Over an empty table of documents, a search whose query
  vector has the dimension of the collection returns the empty sequence and no error,
  for any ordering by distance, also when the body carries any \<open>k > 0\<close>.
\<close>

theorem empty_collection_search:
  assumes "sorts_by_distance (order_by be)" and "documents (db w) = []"
    and "embed_query be text = Some v" and "length v = dimension" and "0 < k"
  shows "snd (search_document be w \<lparr>query = text\<rparr>) = Inr [] \<and>
         snd (search_endpoint be w [''query'' \<mapsto> JStr text, ''k'' \<mapsto> JNum k]) = Inr []"
  using assms
  by (simp add: search_document_def search_endpoint_def parse_SearchQuery_def ranked_rows_def
      sorts_nil Let_def)

text \<open>The fresh database, queried with \<open>k = 5\<close>.\<close>

theorem empty_collection_search_witness:
  "sorts_by_distance (order_by toy_backend) \<and> documents (db fresh) = [] \<and>
   embed_query toy_backend ''cat on a mat'' = Some cat_vector \<and> length cat_vector = dimension \<and>
   (0::int) < 5 \<and>
   snd (search_document toy_backend fresh \<lparr>query = ''cat on a mat''\<rparr>) = Inr [] \<and>
   snd (search_endpoint toy_backend fresh [''query'' \<mapsto> JStr ''cat on a mat'', ''k'' \<mapsto> JNum 5]) = Inr []"
  using empty_collection_search [of toy_backend fresh "''cat on a mat''" cat_vector 5]
  by (simp add: toy_backend_def toy_embed_def toy_lengths scan_order_sort_sorts fresh_def)

text \<open>
  Claim C8 (content and embedding come in pairs). Every request to the service keeps
  the invariant that a row of \<open>documents\<close> has its content and an embedding of 768
  numbers, so every store reached from the fresh database by any run of requests
  satisfies it: no reachable row has one of the two without the other.
\<close>

theorem documents_invariant:
  "(documents_ok (db w) \<longrightarrow> documents_ok (db (handle be w r))) \<and>
   documents_ok (db (run be fresh rs))"
  by (simp add: handle_documents_ok run_documents_ok fresh_documents_ok)

text \<open>The invariant after one and after two additions; the second store is not empty.\<close>

theorem documents_invariant_witness:
  "documents_ok (db fresh) \<and>
   documents_ok (db (handle toy_backend fresh (AddDocument \<lparr>dc_content = ''the cat sat on the mat''\<rparr>))) \<and>
   documents_ok (db scenario) \<and> documents (db scenario) \<noteq> []"
proof -
  have "documents (db scenario) \<noteq> []" by (simp add: scenario_eq)
  moreover have "documents_ok (db scenario)"
    using documents_invariant [of fresh toy_backend "SearchDocument \<lparr>query = []\<rparr>"
      "[AddDocument \<lparr>dc_content = ''the cat sat on the mat''\<rparr>,
        AddDocument \<lparr>dc_content = ''a dog lay on the rug''\<rparr>]"]
    by (simp add: scenario_def)
  moreover have "documents_ok (db (handle toy_backend fresh (AddDocument \<lparr>dc_content = ''the cat sat on the mat''\<rparr>)))"
    using documents_invariant [of fresh toy_backend "AddDocument \<lparr>dc_content = ''the cat sat on the mat''\<rparr>" "[]"]
      fresh_documents_ok by blast
  ultimately show ?thesis using fresh_documents_ok by blast
qed

text \<open>
  Claim C9 (reads never mutate). Whatever the store, the collaborators and the request,
  the database after \<open>search_document\<close>, and after the route that parses the body
  for it, is the database before: no row is added, removed or changed.
\<close>

theorem search_leaves_store:
  "db (fst (search_document be w payload)) = db w \<and> db (fst (search_endpoint be w body)) = db w"
  by (simp add: search_document_db search_endpoint_def split: sum.splits)

text \<open>The claim on the store of the two documents.\<close>

theorem search_leaves_store_witness:
  "db (fst (search_document toy_backend scenario \<lparr>query = ''cat on a mat''\<rparr>)) = db scenario \<and>
   db (fst (search_endpoint toy_backend scenario [''query'' \<mapsto> JStr ''cat on a mat''])) = db scenario"
  by (rule search_leaves_store)

text \<open>
  Claim C10 (delete of a missing item). When no row of \<open>items\<close> has the id,
  \<open>delete_item\<close> returns the dictionary \<open>{"error": "Item not found"}\<close> as a value,
  raises nothing, and leaves the world, the table of items included, unchanged.
\<close>

theorem delete_missing_item:
  "iid \<notin> set (map item_id (items (db w))) \<Longrightarrow>
     delete_item w iid = (w, Inr [(''error'', ''Item not found'')])"
  by (auto simp: delete_item_def find_None_iff split: option.splits)

text \<open>Deleting item 2 from a table that holds item 1 only.\<close>

theorem delete_missing_item_witness:
  "2 \<notin> set (map item_id (items (db one_item))) \<and>
   delete_item one_item 2 = (one_item, Inr [(''error'', ''Item not found'')])"
  using delete_missing_item [of 2 one_item] by (simp add: one_item_def fresh_def)

end
